theory Spec2Isabelle
  imports Main "HOL-Library.Sublist"
begin

text \<open>
  The document store of \<^verbatim>\<open>src/main.py\<close> (\<^verbatim>\<open>load_data\<close>, \<^verbatim>\<open>get_data\<close>, \<^verbatim>\<open>update_data\<close>,
  \<^verbatim>\<open>get_available_files\<close>, \<^verbatim>\<open>create_context_message\<close>) over the configuration of
  \<^verbatim>\<open>src/data/config.py\<close>. The global \<^verbatim>\<open>data\<close> and the files are a state that every
  handler takes and returns; an exception is a value.
\<close>

section \<open>JSON documents and Python dictionaries\<close>

text \<open>
  The values held by the store are what \<^verbatim>\<open>json.load\<close> returns and what the request
  body carries: \<^verbatim>\<open>None\<close>, booleans, integers, strings, lists and dictionaries with
  string keys. Float numbers are not represented; the program never computes with a
  number, it only stores, serialises and parses documents.

  A Python \<^verbatim>\<open>dict\<close> keeps its keys in insertion order, so it is an association list.
  \<^verbatim>\<open>k in d\<close> and \<^verbatim>\<open>d[k]\<close> read the first pair with key \<open>k\<close>; \<^verbatim>\<open>d[k] = v\<close> overwrites
  the value of an existing key where it stands and puts a new key last.
\<close>

datatype json =
    JNull
  | JBool bool
  | JInt int
  | JStr string
  | JList "json list"
  | JDict "(string \<times> json) list"

type_synonym 'v pydict = "(string \<times> 'v) list"

datatype exn =
    HTTPException nat string
  | KeyError string
  | FileNotFoundError string
  | OSError string
  | JSONDecodeError string
  | RequestValidationError

definition contains :: "'v pydict \<Rightarrow> string \<Rightarrow> bool" where
  "contains d k = (map_of d k \<noteq> None)"

definition getitem :: "'v pydict \<Rightarrow> string \<Rightarrow> exn + 'v" where
  "getitem d k = (case map_of d k of None \<Rightarrow> Inl (KeyError k) | Some v \<Rightarrow> Inr v)"

fun setitem :: "'v pydict \<Rightarrow> string \<Rightarrow> 'v \<Rightarrow> 'v pydict" where
  "setitem [] k v = [(k, v)]"
| "setitem ((k', v') # d) k v = (if k' = k then (k, v) # d else (k', v') # setitem d k v)"

text \<open>\<^verbatim>\<open>d.update(other)\<close>: every item of \<open>other\<close>, in its order, is stored into \<open>d\<close>.\<close>

fun dict_update :: "'v pydict \<Rightarrow> 'v pydict \<Rightarrow> 'v pydict" where
  "dict_update d [] = d"
| "dict_update d ((k, v) # other) = dict_update (setitem d k v) other"

definition keys :: "'v pydict \<Rightarrow> string list" where
  "keys d = map fst d"

section \<open>What the program takes from its environment\<close>

text \<open>
  \<open>BASE_DIR\<close> is the directory two levels above \<^verbatim>\<open>data/config.py\<close>, known only where
  the program is installed. \<open>dumps\<close> is \<^verbatim>\<open>json.dumps(v, indent=n)\<close>, the text that
  \<^verbatim>\<open>json.dump(v, f, indent=n)\<close> writes; \<open>loads\<close> is the parser behind \<^verbatim>\<open>json.load\<close>,
  \<open>Inl\<close> carrying the message of its \<^verbatim>\<open>JSONDecodeError\<close>. Both belong to Python's
  library, so every result below holds for whatever they compute.
\<close>

record env =
  BASE_DIR :: string
  dumps :: "nat \<Rightarrow> json \<Rightarrow> string"
  loads :: "string \<Rightarrow> string + json"

text \<open>\<^verbatim>\<open>os.path.join\<close> of two components on a POSIX system.\<close>

definition path_join :: "string \<Rightarrow> string \<Rightarrow> string" where
  "path_join a b =
     (if b \<noteq> [] \<and> hd b = CHR ''/'' then b
      else if a = [] \<or> last a = CHR ''/'' then a @ b
      else a @ ''/'' @ b)"

definition JSON_DIR :: "env \<Rightarrow> string" where
  "JSON_DIR E = path_join (path_join (BASE_DIR E) ''data'') ''json''"

definition DATA_FILES :: "env \<Rightarrow> string pydict" where
  "DATA_FILES E =
     [(''academic_deadlines'', path_join (JSON_DIR E) ''academic_deadlines.json''),
      (''course_information'', path_join (JSON_DIR E) ''course_information.json''),
      (''student_service_support'', path_join (JSON_DIR E) ''student_support.json''),
      (''library_books_list'', path_join (JSON_DIR E) ''library_books.json''),
      (''transport_service'', path_join (JSON_DIR E) ''transport_service.json''),
      (''paper_recheck'', path_join (JSON_DIR E) ''paper_recheck.json'')]"

text \<open>
  The disk maps a path to what is there: a file whose text can be read, or something
  that exists and makes \<^verbatim>\<open>open\<close> or the read raise (a directory, a file without
  permission, bytes that do not decode), with the message of that exception.
\<close>

datatype entry = Text string | Unreadable string

type_synonym filesystem = "string \<rightharpoonup> entry"

text \<open>
  Whether a write goes wrong is the environment's choice at each request: \<^verbatim>\<open>open(p, 'w')\<close>
  raises and leaves the disk as it is, or it truncates the file and the write of the text
  raises after some characters.
\<close>

datatype io_fault = OpenFails string | WriteFails nat string

fun open_w :: "io_fault option \<Rightarrow> filesystem \<Rightarrow> string \<Rightarrow> exn + filesystem" where
  "open_w (Some (OpenFails msg)) fs p = Inl (OSError msg)"
| "open_w fault fs p = Inr (fs(p \<mapsto> Text []))"

fun write_text :: "io_fault option \<Rightarrow> filesystem \<Rightarrow> string \<Rightarrow> string \<Rightarrow> exn option \<times> filesystem" where
  "write_text (Some (WriteFails n msg)) fs p txt = (Some (OSError msg), fs(p \<mapsto> Text (take n txt)))"
| "write_text fault fs p txt = (None, fs(p \<mapsto> Text txt))"

section \<open>The store: \<^verbatim>\<open>load_data\<close>\<close>

text \<open>The body of the \<^verbatim>\<open>try\<close> in \<^verbatim>\<open>load_data\<close>, for one file.\<close>

definition read_json :: "env \<Rightarrow> filesystem \<Rightarrow> string \<Rightarrow> exn + json" where
  "read_json E fs filepath =
     (case fs filepath of
        None \<Rightarrow> Inl (FileNotFoundError (''Data file not found: '' @ filepath))
      | Some (Unreadable msg) \<Rightarrow> Inl (OSError msg)
      | Some (Text txt) \<Rightarrow>
          (case loads E txt of Inl msg \<Rightarrow> Inl (JSONDecodeError msg) | Inr v \<Rightarrow> Inr v))"

text \<open>
  The loop over \<^verbatim>\<open>DATA_FILES.items()\<close>; \<^verbatim>\<open>except Exception\<close> binds the key to \<^verbatim>\<open>{}\<close>
  (the message it prints goes to the standard output, which is not part of the state).
\<close>

fun load_data_loop :: "env \<Rightarrow> filesystem \<Rightarrow> string pydict \<Rightarrow> json pydict \<Rightarrow> json pydict" where
  "load_data_loop E fs [] data = data"
| "load_data_loop E fs ((key, filepath) # items) data =
     load_data_loop E fs items
       (case read_json E fs filepath of
          Inr v \<Rightarrow> setitem data key v
        | Inl e \<Rightarrow> setitem data key (JDict []))"

definition load_data :: "env \<Rightarrow> filesystem \<Rightarrow> json pydict" where
  "load_data E fs = load_data_loop E fs (DATA_FILES E) []"

section \<open>Exceptions as text, HTTP status\<close>

fun str_nat :: "nat \<Rightarrow> string" where
  "str_nat n =
     (if n < 10 then [''0123456789'' ! n]
      else str_nat (n div 10) @ [''0123456789'' ! (n mod 10)])"

declare str_nat.simps [simp del]

text \<open>
  \<^verbatim>\<open>str(e)\<close>. An \<^verbatim>\<open>HTTPException\<close> prints as \<^verbatim>\<open>f"{status_code}: {detail}"\<close>
  (Starlette's \<^verbatim>\<open>__str__\<close>); a \<^verbatim>\<open>KeyError\<close> prints its key between quotes; the others
  carry their message.
\<close>

fun str_exn :: "exn \<Rightarrow> string" where
  "str_exn (HTTPException sc detail) = str_nat sc @ '': '' @ detail"
| "str_exn (KeyError k) = [CHR 0x27] @ k @ [CHR 0x27]"
| "str_exn (FileNotFoundError msg) = msg"
| "str_exn (OSError msg) = msg"
| "str_exn (JSONDecodeError msg) = msg"
| "str_exn RequestValidationError = ''request validation error''"

text \<open>
  What the framework answers: 200 with the returned body, the status of a raised
  \<^verbatim>\<open>HTTPException\<close>, 422 when the body does not fit the request model, 500 for any
  other exception that leaves a handler.
\<close>

fun status_code :: "exn + json \<Rightarrow> nat" where
  "status_code (Inr body) = 200"
| "status_code (Inl (HTTPException sc detail)) = sc"
| "status_code (Inl RequestValidationError) = 422"
| "status_code (Inl e) = 500"

section \<open>The handlers\<close>

record state =
  data :: "json pydict"
  disk :: filesystem

definition startup :: "env \<Rightarrow> filesystem \<Rightarrow> state" where
  "startup E fs = \<lparr>data = load_data E fs, disk = fs\<rparr>"

text \<open>\<^verbatim>\<open>class UpdateRequest(BaseModel): file_name: str; new_data: dict\<close>\<close>

record UpdateRequest =
  file_name :: string
  new_data :: "json pydict"

definition get_data :: "json pydict \<Rightarrow> string \<Rightarrow> exn + json" where
  "get_data store fname =
     (if \<not> contains store fname then Inl (HTTPException 404 ''File not found'')
      else case getitem store fname of
             Inl e \<Rightarrow> Inl e
           | Inr v \<Rightarrow> Inr (JDict [(''data'', v)]))"

text \<open>
  Lines 170 to 173, for a list \<open>xs\<close> and any patch: \<^verbatim>\<open>extend\<close> when the patch is a list,
  \<^verbatim>\<open>append\<close> otherwise.
\<close>

fun list_merge :: "json list \<Rightarrow> json \<Rightarrow> json list" where
  "list_merge xs (JList ys) = xs @ ys"
| "list_merge xs patch = xs @ [patch]"

text \<open>
  Lines 167 to 173. The dataset object is changed in place, so the store (the global \<^verbatim>\<open>data\<close>)
  holds the new value under the same key; \<open>nd\<close> is the request's \<open>new_data\<close>, a \<^verbatim>\<open>dict\<close>.
\<close>

definition update_in_memory :: "json pydict \<Rightarrow> string \<Rightarrow> json pydict \<Rightarrow> json pydict" where
  "update_in_memory store fname nd =
     (case map_of store fname of
        Some (JDict d) \<Rightarrow> setitem store fname (JDict (dict_update d nd))
      | Some (JList xs) \<Rightarrow> setitem store fname (JList (list_merge xs (JDict nd)))
      | _ \<Rightarrow> store)"

text \<open>The body of the \<^verbatim>\<open>try\<close> of \<^verbatim>\<open>update_data\<close>: \<open>Inl\<close> is the exception it raises.\<close>

definition update_data_try ::
  "env \<Rightarrow> io_fault option \<Rightarrow> state \<Rightarrow> UpdateRequest \<Rightarrow> (exn + json) \<times> state" where
  "update_data_try E fault st request =
     (let fname = file_name request in
      if \<not> contains (data st) fname then (Inl (HTTPException 404 ''File not found''), st)
      else
        let data' = update_in_memory (data st) fname (new_data request) in
        case getitem (DATA_FILES E) fname of
          Inl e \<Rightarrow> (Inl e, st\<lparr>data := data'\<rparr>)
        | Inr file_path \<Rightarrow>
            (case open_w fault (disk st) file_path of
               Inl e \<Rightarrow> (Inl e, st\<lparr>data := data'\<rparr>)
             | Inr fs1 \<Rightarrow>
                 (case getitem data' fname of
                    Inl e \<Rightarrow> (Inl e, \<lparr>data = data', disk = fs1\<rparr>)
                  | Inr v \<Rightarrow>
                      (case write_text fault fs1 file_path (dumps E 4 v) of
                         (Some e, fs') \<Rightarrow> (Inl e, \<lparr>data = data', disk = fs'\<rparr>)
                       | (None, fs') \<Rightarrow>
                           (Inr (JDict [(''status'', JStr ''success''),
                                        (''message'', JStr (''Data updated successfully in '' @ fname)),
                                        (''updated_data'', v)]),
                            \<lparr>data = data', disk = fs'\<rparr>)))))"

text \<open>
  \<^verbatim>\<open>except Exception as e: raise HTTPException(status_code=500, ...)\<close> encloses the whole
  body, and \<^verbatim>\<open>HTTPException\<close> is an \<^verbatim>\<open>Exception\<close>.
\<close>

definition update_data ::
  "env \<Rightarrow> io_fault option \<Rightarrow> state \<Rightarrow> UpdateRequest \<Rightarrow> (exn + json) \<times> state" where
  "update_data E fault st request =
     (case update_data_try E fault st request of
        (Inl e, st') \<Rightarrow> (Inl (HTTPException 500 (''Error updating data: '' @ str_exn e)), st')
      | (Inr body, st') \<Rightarrow> (Inr body, st'))"

definition get_available_files :: "env \<Rightarrow> json" where
  "get_available_files E = JDict [(''files'', JList (map JStr (keys (DATA_FILES E))))]"

section \<open>The context message\<close>

definition section_titles :: "(string \<times> string) list" where
  "section_titles =
     [(''Academic Deadlines'', ''academic_deadlines''),
      (''Course Information'', ''course_information''),
      (''Student Support'', ''student_service_support''),
      (''Library Books'', ''library_books_list''),
      (''Transport Services'', ''transport_service''),
      (''Paper Recheck'', ''paper_recheck'')]"

text \<open>The dictionary display \<open>data_sections\<close>: each \<^verbatim>\<open>data[key]\<close> may raise \<^verbatim>\<open>KeyError\<close>.\<close>

fun data_sections :: "json pydict \<Rightarrow> (string \<times> string) list \<Rightarrow> exn + json pydict" where
  "data_sections store [] = Inr []"
| "data_sections store ((title, key) # rest) =
     (case getitem store key of
        Inl e \<Rightarrow> Inl e
      | Inr content \<Rightarrow>
          (case data_sections store rest of
             Inl e \<Rightarrow> Inl e
           | Inr secs \<Rightarrow> Inr ((title, content) # secs)))"

fun str_join :: "string \<Rightarrow> string list \<Rightarrow> string" where
  "str_join sep [] = []"
| "str_join sep [s] = s"
| "str_join sep (s # t # ss) = s @ sep @ str_join sep (t # ss)"

definition context_intro :: string where
  "context_intro =
     ''You are an AI assistant for our university. Use ONLY the following information to answer queries:''"

definition context_rules :: string where
  "context_rules =
     ''\<newline>Rules:\<newline>1. Use ONLY above data\<newline>'' @
     ''2. If you don't have the information, say 'Please Contact with your Academic Advisor'\<newline>'' @
     ''3. Quote exact dates/times\<newline>4. Be direct and precise''"

definition render_section :: "env \<Rightarrow> string \<times> json \<Rightarrow> string" where
  "render_section E sec = ''\<newline>'' @ fst sec @ '':\<newline>'' @ dumps E 2 (snd sec)"

definition create_context_message :: "env \<Rightarrow> json pydict \<Rightarrow> exn + string" where
  "create_context_message E store =
     (case data_sections store section_titles of
        Inl e \<Rightarrow> Inl e
      | Inr secs \<Rightarrow>
          Inr (str_join ''\<newline>'' ([context_intro] @ map (render_section E) secs @ [context_rules])))"

section \<open>Requests\<close>

text \<open>
  The update endpoint receives a JSON body, which the framework fits to
  \<open>UpdateRequest\<close> before the handler runs: an object whose \<open>file_name\<close> is a
  string and whose \<open>new_data\<close> is an object; anything else is answered with a
  validation error and the handler is not called.
\<close>

definition validate_UpdateRequest :: "json \<Rightarrow> exn + UpdateRequest" where
  "validate_UpdateRequest body =
     (case body of
        JDict items \<Rightarrow>
          (case (map_of items ''file_name'', map_of items ''new_data'') of
             (Some (JStr s), Some (JDict d)) \<Rightarrow> Inr \<lparr>file_name = s, new_data = d\<rparr>
           | _ \<Rightarrow> Inl RequestValidationError)
      | _ \<Rightarrow> Inl RequestValidationError)"

definition post_admin_update ::
  "env \<Rightarrow> io_fault option \<Rightarrow> state \<Rightarrow> json \<Rightarrow> (exn + json) \<times> state" where
  "post_admin_update E fault st body =
     (case validate_UpdateRequest body of
        Inl e \<Rightarrow> (Inl e, st)
      | Inr request \<Rightarrow> update_data E fault st request)"

text \<open>
  The operations that read or write the store, as requests: the get-dataset endpoint,
  the context message built for a chat request, the update endpoint (with the fate of its
  write) and the files endpoint.
\<close>

datatype request =
    GetData string
  | ContextMessage
  | AdminUpdate json "io_fault option"
  | AdminFiles

fun handle :: "env \<Rightarrow> state \<Rightarrow> request \<Rightarrow> (exn + json) \<times> state" where
  "handle E st (GetData fname) = (get_data (data st) fname, st)"
| "handle E st ContextMessage =
     (case create_context_message E (data st) of
        Inl e \<Rightarrow> (Inl e, st)
      | Inr txt \<Rightarrow> (Inr (JStr txt), st))"
| "handle E st (AdminUpdate body fault) = post_admin_update E fault st body"
| "handle E st AdminFiles = (Inr (get_available_files E), st)"

fun run :: "env \<Rightarrow> state \<Rightarrow> request list \<Rightarrow> state" where
  "run E st [] = st"
| "run E st (r # rs) = run E (snd (handle E st r)) rs"

section \<open>Shapes of a dataset, and the message of a failed write\<close>

fun isinstance_dict :: "json \<Rightarrow> bool" where
  "isinstance_dict (JDict d) = True"
| "isinstance_dict v = False"

fun isinstance_list :: "json \<Rightarrow> bool" where
  "isinstance_list (JList xs) = True"
| "isinstance_list v = False"

fun fault_message :: "io_fault \<Rightarrow> string" where
  "fault_message (OpenFails msg) = msg"
| "fault_message (WriteFails n msg) = msg"

section \<open>An instance of the environment\<close>

text \<open>
  To run the handlers on concrete requests, an encoder and a parser for the documents of
  this model. The encoder lays a document out as \<^verbatim>\<open>json.dumps\<close> does with \<open>indent\<close>
  (items on lines of their own, \<open>indent\<close> spaces per level, \<^verbatim>\<open>", "\<close> never used, \<^verbatim>\<open>": "\<close>
  after a key, every character outside the printable ASCII range escaped); the parser reads
  the JSON grammar: white space, the three literals, integers, strings with their
  escapes, arrays and objects, a repeated key keeping its last value. Its error messages
  are not Python's. The recursion of the parser is bounded by the length of the text.
\<close>

definition str_int :: "int \<Rightarrow> string" where
  "str_int i = (if i < 0 then ''-'' @ str_nat (nat (- i)) else str_nat (nat i))"

definition escape_char :: "char \<Rightarrow> string" where
  "escape_char c =
     (if c = CHR 0x22 then [CHR 0x5C, CHR 0x22]
      else if c = CHR 0x5C then [CHR 0x5C, CHR 0x5C]
      else if c = CHR 0x0A then [CHR 0x5C, CHR ''n'']
      else if c = CHR 0x0D then [CHR 0x5C, CHR ''r'']
      else if c = CHR 0x09 then [CHR 0x5C, CHR ''t'']
      else if c = CHR 0x08 then [CHR 0x5C, CHR ''b'']
      else if c = CHR 0x0C then [CHR 0x5C, CHR ''f'']
      else if (of_char c :: nat) < 32 \<or> 126 < (of_char c :: nat)
        then [CHR 0x5C, CHR ''u'', CHR ''0'', CHR ''0'',
              ''0123456789abcdef'' ! (of_char c div 16), ''0123456789abcdef'' ! (of_char c mod 16)]
      else [c])"

definition encode_str :: "string \<Rightarrow> string" where
  "encode_str s = [CHR 0x22] @ concat (map escape_char s) @ [CHR 0x22]"

definition newline_indent :: "nat \<Rightarrow> nat \<Rightarrow> string" where
  "newline_indent indent level = CHR 0x0A # replicate (indent * level) CHR '' ''"

fun encode :: "nat \<Rightarrow> nat \<Rightarrow> json \<Rightarrow> string" where
  "encode indent level JNull = ''null''"
| "encode indent level (JBool b) = (if b then ''true'' else ''false'')"
| "encode indent level (JInt i) = str_int i"
| "encode indent level (JStr s) = encode_str s"
| "encode indent level (JList xs) =
     (if xs = [] then ''[]''
      else ''['' @ newline_indent indent (Suc level) @
           str_join ('','' @ newline_indent indent (Suc level))
             (map (encode indent (Suc level)) xs) @
           newline_indent indent level @ '']'')"
| "encode indent level (JDict d) =
     (if d = [] then ''{}''
      else ''{'' @ newline_indent indent (Suc level) @
           str_join ('','' @ newline_indent indent (Suc level))
             (map (\<lambda>kv. encode_str (fst kv) @ '': '' @ encode indent (Suc level) (snd kv)) d) @
           newline_indent indent level @ ''}'')"

definition py_dumps :: "nat \<Rightarrow> json \<Rightarrow> string" where
  "py_dumps indent v = encode indent 0 v"


definition is_ws :: "char \<Rightarrow> bool" where
  "is_ws c = (c = CHR '' '' \<or> c = CHR 0x09 \<or> c = CHR 0x0A \<or> c = CHR 0x0D)"

definition skip_ws :: "string \<Rightarrow> string" where
  "skip_ws s = dropWhile is_ws s"

definition is_digit :: "char \<Rightarrow> bool" where
  "is_digit c = (48 \<le> (of_char c :: nat) \<and> (of_char c :: nat) \<le> 57)"

definition hex_val :: "char \<Rightarrow> nat option" where
  "hex_val c =
     (let n = (of_char c :: nat) in
      if 48 \<le> n \<and> n \<le> 57 then Some (n - 48)
      else if 97 \<le> n \<and> n \<le> 102 then Some (n - 87)
      else if 65 \<le> n \<and> n \<le> 70 then Some (n - 55)
      else None)"

definition unescape :: "char \<Rightarrow> char option" where
  "unescape e =
     (if e = CHR 0x22 \<or> e = CHR 0x5C \<or> e = CHR ''/'' then Some e
      else if e = CHR ''n'' then Some (CHR 0x0A)
      else if e = CHR ''r'' then Some (CHR 0x0D)
      else if e = CHR ''t'' then Some (CHR 0x09)
      else if e = CHR ''b'' then Some (CHR 0x08)
      else if e = CHR ''f'' then Some (CHR 0x0C)
      else None)"

fun scan_string :: "string \<Rightarrow> string \<Rightarrow> (string \<times> string) option" where
  "scan_string acc [] = None"
| "scan_string acc (c # cs) =
     (if c = CHR 0x22 then Some (acc, cs)
      else if c = CHR 0x5C then
        (case cs of
           [] \<Rightarrow> None
         | e # rest \<Rightarrow>
             if e = CHR ''u'' then
               (case rest of
                  h1 # h2 # h3 # h4 # rest' \<Rightarrow>
                    (case (hex_val h1, hex_val h2, hex_val h3, hex_val h4) of
                       (Some a, Some b, Some x, Some y) \<Rightarrow>
                         if a = 0 \<and> b = 0 then scan_string (acc @ [char_of (16 * x + y)]) rest'
                         else None
                     | _ \<Rightarrow> None)
                | _ \<Rightarrow> None)
             else (case unescape e of
                     Some x \<Rightarrow> scan_string (acc @ [x]) rest
                   | None \<Rightarrow> None))
      else if (of_char c :: nat) < 32 then None
      else scan_string (acc @ [c]) cs)"

definition scan_int :: "string \<Rightarrow> (json \<times> string) option" where
  "scan_int s =
     (let neg = (s \<noteq> [] \<and> hd s = CHR ''-'');
          body = (if neg then tl s else s);
          ds = (if body \<noteq> [] \<and> hd body = CHR ''0'' then ''0'' else takeWhile is_digit body);
          rest = drop (length ds) body;
          n = foldl (\<lambda>a c. 10 * a + (of_char c - 48)) (0::nat) ds
      in if ds = [] then None
         else if rest \<noteq> [] \<and> (hd rest = CHR ''.'' \<or> hd rest = CHR ''e'' \<or> hd rest = CHR ''E'') then None
         else Some (JInt (if neg then - int n else int n), rest))"

fun scan_once :: "nat \<Rightarrow> string \<Rightarrow> (json \<times> string) option"
and scan_array :: "nat \<Rightarrow> json list \<Rightarrow> string \<Rightarrow> (json \<times> string) option"
and scan_object :: "nat \<Rightarrow> json pydict \<Rightarrow> string \<Rightarrow> (json \<times> string) option" where
  "scan_once 0 s = None"
| "scan_once (Suc n) [] = None"
| "scan_once (Suc n) (c # cs) =
     (if c = CHR 0x22 then
        (case scan_string [] cs of
           Some (str, rest) \<Rightarrow> Some (JStr str, rest)
         | None \<Rightarrow> None)
      else if c = CHR ''{'' then
        (let s = skip_ws cs in
         if s \<noteq> [] \<and> hd s = CHR ''}'' then Some (JDict [], tl s) else scan_object n [] s)
      else if c = CHR ''['' then
        (let s = skip_ws cs in
         if s \<noteq> [] \<and> hd s = CHR '']'' then Some (JList [], tl s) else scan_array n [] s)
      else if prefix ''null'' (c # cs) then Some (JNull, drop 4 (c # cs))
      else if prefix ''true'' (c # cs) then Some (JBool True, drop 4 (c # cs))
      else if prefix ''false'' (c # cs) then Some (JBool False, drop 5 (c # cs))
      else scan_int (c # cs))"
| "scan_array 0 acc s = None"
| "scan_array (Suc n) acc s =
     (case scan_once n s of
        None \<Rightarrow> None
      | Some (v, rest) \<Rightarrow>
          (let r = skip_ws rest in
           if r \<noteq> [] \<and> hd r = CHR '']'' then Some (JList (acc @ [v]), tl r)
           else if r \<noteq> [] \<and> hd r = CHR '','' then scan_array n (acc @ [v]) (skip_ws (tl r))
           else None))"
| "scan_object 0 acc s = None"
| "scan_object (Suc n) acc s =
     (if s \<noteq> [] \<and> hd s = CHR 0x22 then
        (case scan_string [] (tl s) of
           None \<Rightarrow> None
         | Some (key, rest) \<Rightarrow>
             (let r = skip_ws rest in
              if r \<noteq> [] \<and> hd r = CHR '':'' then
                (case scan_once n (skip_ws (tl r)) of
                   None \<Rightarrow> None
                 | Some (v, rest') \<Rightarrow>
                     (let r' = skip_ws rest' in
                      if r' \<noteq> [] \<and> hd r' = CHR ''}'' then Some (JDict (setitem acc key v), tl r')
                      else if r' \<noteq> [] \<and> hd r' = CHR '','' then
                        scan_object n (setitem acc key v) (skip_ws (tl r'))
                      else None))
              else None))
      else None)"

definition py_loads :: "string \<Rightarrow> string + json" where
  "py_loads s =
     (case scan_once (Suc (length s)) (skip_ws s) of
        None \<Rightarrow> Inl ''Expecting value''
      | Some (v, rest) \<Rightarrow> if skip_ws rest = [] then Inr v else Inl ''Extra data'')"

definition py_env :: "string \<Rightarrow> env" where
  "py_env base = \<lparr>BASE_DIR = base, dumps = py_dumps, loads = py_loads\<rparr>"

text \<open>An installation under \<^verbatim>\<open>/app\<close> and a disk with one file in each condition.\<close>

definition demo_env :: env where
  "demo_env = py_env ''/app''"

definition demo_disk :: filesystem where
  \<open>demo_disk =
     [''/app/data/json/academic_deadlines.json'' \<mapsto> Text ''{"midterm": "Oct 10"}'',
      ''/app/data/json/student_support.json'' \<mapsto> Unreadable ''[Errno 13] Permission denied'',
      ''/app/data/json/library_books.json'' \<mapsto> Text ''["Dune"]'',
      ''/app/data/json/transport_service.json'' \<mapsto> Text ''42'',
      ''/app/data/json/paper_recheck.json'' \<mapsto> Text ''{"fee": '']\<close>

definition demo_store :: "json pydict" where
  "demo_store =
     [(''academic_deadlines'', JDict [(''midterm'', JStr ''Oct 10'')]),
      (''course_information'', JDict []),
      (''student_service_support'', JDict []),
      (''library_books_list'', JList [JStr ''Dune'']),
      (''transport_service'', JInt 42),
      (''paper_recheck'', JDict [])]"

definition demo_state :: state where
  "demo_state = \<lparr>data = demo_store, disk = demo_disk\<rparr>"

section \<open>Dictionaries, the loop of \<^verbatim>\<open>load_data\<close>, the names in the store\<close>

lemma map_of_setitem: "map_of (setitem d k v) = (map_of d)(k \<mapsto> v)"
  by (induction d) auto

lemma keys_setitem: "map_of d k \<noteq> None \<Longrightarrow> keys (setitem d k v) = keys d"
  by (induction d) (auto simp: keys_def)

lemma setitem_new: "map_of d k = None \<Longrightarrow> setitem d k v = d @ [(k, v)]"
  by (induction d) (auto split: if_splits)

lemma setitem_same: "map_of d k = Some v \<Longrightarrow> setitem d k v = d"
  by (induction d) (auto split: if_splits)

lemma map_of_dict_update: "map_of (dict_update d other) = map_of d ++ map_of (rev other)"
proof (induction d other rule: dict_update.induct)
  case (1 d)
  then show ?case by simp
next
  case (2 d k v other)
  have "map_of (dict_update d ((k, v) # other)) = map_of (setitem d k v) ++ map_of (rev other)"
    using "2.IH" by simp
  also have "\<dots> = (map_of d)(k \<mapsto> v) ++ map_of (rev other)"
    by (simp only: map_of_setitem)
  also have "\<dots> = map_of d ++ ([k \<mapsto> v] ++ map_of (rev other))"
    by (rule ext) (simp add: map_add_def split: option.splits)
  also have "\<dots> = map_of d ++ map_of (rev ((k, v) # other))"
    by simp
  finally show ?case .
qed

lemma dict_update_patch_key:
  assumes "distinct (keys other)" and "(k, v) \<in> set other"
  shows "map_of (dict_update d other) k = Some v"
proof -
  from assms have "map_of (rev other) k = Some v"
    by (simp add: keys_def distinct_rev rev_map [symmetric] del: rev_map)
  then show ?thesis by (simp add: map_of_dict_update)
qed

lemma dict_update_other_key:
  assumes "k \<notin> set (keys other)"
  shows "map_of (dict_update d other) k = map_of d k"
proof -
  from assms have "map_of (rev other) k = None"
    by (simp add: keys_def map_of_eq_None_iff)
  then show ?thesis by (simp add: map_of_dict_update map_add_def)
qed

lemma load_data_loop_fresh:
  "distinct (keys items) \<Longrightarrow> \<forall>k \<in> set (keys items). map_of acc k = None \<Longrightarrow>
   load_data_loop E fs items acc =
     acc @ map (\<lambda>(k, p). (k, case read_json E fs p of Inr v \<Rightarrow> v | Inl e \<Rightarrow> JDict [])) items"
proof (induction items arbitrary: acc)
  case Nil
  then show ?case by simp
next
  case (Cons kp items)
  obtain k p where kp: "kp = (k, p)" by (cases kp)
  let ?v = "case read_json E fs p of Inr v \<Rightarrow> v | Inl e \<Rightarrow> JDict []"
  have step: "(case read_json E fs p of Inr v \<Rightarrow> setitem acc k v | Inl e \<Rightarrow> setitem acc k (JDict []))
      = acc @ [(k, ?v)]"
    using Cons.prems(2) by (simp add: kp keys_def setitem_new split: sum.splits)
  have "load_data_loop E fs items (acc @ [(k, ?v)]) =
      (acc @ [(k, ?v)]) @ map (\<lambda>(k, p). (k, case read_json E fs p of Inr v \<Rightarrow> v | Inl e \<Rightarrow> JDict [])) items"
  proof (rule Cons.IH)
    show "distinct (keys items)" using Cons.prems(1) by (simp add: keys_def)
    show "\<forall>k' \<in> set (keys items). map_of (acc @ [(k, ?v)]) k' = None"
      using Cons.prems by (auto simp: kp keys_def map_add_def split: option.splits)
  qed
  then show ?case by (simp add: kp step)
qed

lemma distinct_DATA_FILES: "distinct (keys (DATA_FILES E))"
  by (simp add: DATA_FILES_def keys_def)

lemma load_data_eq:
  "load_data E fs =
     map (\<lambda>(k, p). (k, case read_json E fs p of Inr v \<Rightarrow> v | Inl e \<Rightarrow> JDict [])) (DATA_FILES E)"
  unfolding load_data_def
  using load_data_loop_fresh [OF distinct_DATA_FILES, of E "[]" E fs] by simp

lemma keys_load_data: "keys (load_data E fs) = keys (DATA_FILES E)"
  by (simp add: load_data_eq keys_def case_prod_unfold comp_def)

lemma map_of_load_data:
  assumes "(name, path) \<in> set (DATA_FILES E)"
  shows "map_of (load_data E fs) name =
           Some (case read_json E fs path of Inr v \<Rightarrow> v | Inl e \<Rightarrow> JDict [])"
proof -
  have "distinct (map fst (load_data E fs))"
    using distinct_DATA_FILES [of E] keys_load_data [of E fs] by (simp add: keys_def)
  moreover have "(name, case read_json E fs path of Inr v \<Rightarrow> v | Inl e \<Rightarrow> JDict []) \<in> set (load_data E fs)"
    using assms by (force simp: load_data_eq)
  ultimately show ?thesis by simp
qed

lemma contains_iff: "contains d k \<longleftrightarrow> k \<in> set (keys d)"
  by (simp add: contains_def keys_def map_of_eq_None_iff)

lemma keys_update_in_memory: "keys (update_in_memory store fname nd) = keys store"
  by (simp add: update_in_memory_def keys_setitem split: option.splits json.splits)

lemma data_update_data_try:
  "data (snd (update_data_try E fault st request)) =
     (if contains (data st) (file_name request)
      then update_in_memory (data st) (file_name request) (new_data request)
      else data st)"
  by (simp add: update_data_try_def Let_def split: sum.splits prod.splits option.splits)

lemma snd_update_data: "snd (update_data E fault st request) = snd (update_data_try E fault st request)"
  by (simp add: update_data_def split: sum.splits prod.splits)

lemma data_update_data:
  "data (snd (update_data E fault st request)) =
     (if contains (data st) (file_name request)
      then update_in_memory (data st) (file_name request) (new_data request)
      else data st)"
  by (simp only: snd_update_data data_update_data_try)

lemma keys_handle: "keys (data (snd (handle E st r))) = keys (data st)"
proof (cases r)
  case (AdminUpdate body fault)
  then show ?thesis
    by (simp add: post_admin_update_def data_update_data keys_update_in_memory split: sum.splits)
qed (simp_all split: sum.splits)

lemma keys_run: "keys (data (run E st rs)) = keys (data st)"
  by (induction rs arbitrary: st) (simp_all add: keys_handle)

lemma keys_reachable: "keys (data (run E (startup E fs) rs)) = keys (DATA_FILES E)"
  by (simp add: keys_run startup_def keys_load_data)

lemma keys_DATA_FILES:
  "keys (DATA_FILES E) =
     [''academic_deadlines'', ''course_information'', ''student_service_support'',
      ''library_books_list'', ''transport_service'', ''paper_recheck'']"
  by (simp add: DATA_FILES_def keys_def)

lemma getitem_Some: "map_of d k = Some v \<Longrightarrow> getitem d k = Inr v"
  by (simp add: getitem_def)

lemma update_data_try_written:
  assumes "map_of (data st) (file_name request) = Some cur"
      and "map_of (DATA_FILES E) (file_name request) = Some file_path"
      and "map_of (update_in_memory (data st) (file_name request) (new_data request)) (file_name request) = Some v"
  shows "update_data_try E None st request =
           (Inr (JDict [(''status'', JStr ''success''),
                        (''message'', JStr (''Data updated successfully in '' @ file_name request)),
                        (''updated_data'', v)]),
            \<lparr>data = update_in_memory (data st) (file_name request) (new_data request),
               disk = (disk st)(file_path \<mapsto> Text (dumps E 4 v))\<rparr>)"
  using assms by (simp add: update_data_try_def Let_def contains_def getitem_def)

lemma update_data_try_fault:
  assumes "map_of (data st) (file_name request) = Some cur"
      and "map_of (DATA_FILES E) (file_name request) = Some file_path"
      and "map_of (update_in_memory (data st) (file_name request) (new_data request)) (file_name request) = Some v"
  shows "update_data_try E (Some f) st request =
           (Inl (OSError (fault_message f)),
            \<lparr>data = update_in_memory (data st) (file_name request) (new_data request),
               disk = (case f of
                         OpenFails msg \<Rightarrow> disk st
                       | WriteFails n msg \<Rightarrow> (disk st)(file_path \<mapsto> Text (take n (dumps E 4 v))))\<rparr>)"
  using assms by (cases f) (simp_all add: update_data_try_def Let_def contains_def getitem_def)

lemma map_of_update_in_memory:
  "map_of store fname = Some cur \<Longrightarrow>
   map_of (update_in_memory store fname nd) fname =
     Some (case cur of
             JDict d \<Rightarrow> JDict (dict_update d nd)
           | JList xs \<Rightarrow> JList (list_merge xs (JDict nd))
           | _ \<Rightarrow> cur)"
  by (simp add: update_in_memory_def map_of_setitem split: json.splits)


lemma sublist_str_join: "s \<in> set parts \<Longrightarrow> sublist s (str_join sep parts)"
proof (induction sep parts rule: str_join.induct)
  case (1 sep)
  then show ?case by simp
next
  case (2 sep s')
  then show ?case by simp
next
  case (3 sep s' t ss)
  show ?case
  proof (cases "s = s'")
    case True
    then show ?thesis by (simp add: sublist_append_rightI)
  next
    case False
    with 3 have "sublist s (str_join sep (t # ss))" by simp
    then show ?thesis by (simp add: sublist_append)
  qed
qed

lemma suffix_str_join: "parts \<noteq> [] \<Longrightarrow> suffix (last parts) (str_join sep parts)"
proof (induction sep parts rule: str_join.induct)
  case (3 sep s' t ss)
  then have "suffix (last (t # ss)) (str_join sep (t # ss))" by simp
  then have "suffix (last (t # ss)) (s' @ sep @ str_join sep (t # ss))"
    by (intro suffix_appendI)
  then show ?case by simp
qed simp_all

lemma data_sections_total:
  "\<forall>key \<in> set (map snd titles). map_of store key \<noteq> None \<Longrightarrow>
   data_sections store titles = Inr (map (\<lambda>(title, key). (title, the (map_of store key))) titles)"
  by (induction titles) (auto simp: getitem_def)

lemma keys_section_titles: "map snd section_titles = keys (DATA_FILES E)"
  by (simp add: section_titles_def keys_DATA_FILES)


lemma update_data_unknown_name:
  assumes "\<not> contains (data st) (file_name request)"
  shows "update_data E fault st request =
           (Inl (HTTPException 500 ''Error updating data: 404: File not found''), st)"
proof -
  have "str_nat 404 = ''404''" by code_simp
  with assms show ?thesis by (simp add: update_data_def update_data_try_def)
qed

section \<open>The instance, evaluated\<close>

lemma demo_DATA_FILES:
  "DATA_FILES demo_env =
     [(''academic_deadlines'', ''/app/data/json/academic_deadlines.json''),
      (''course_information'', ''/app/data/json/course_information.json''),
      (''student_service_support'', ''/app/data/json/student_support.json''),
      (''library_books_list'', ''/app/data/json/library_books.json''),
      (''transport_service'', ''/app/data/json/transport_service.json''),
      (''paper_recheck'', ''/app/data/json/paper_recheck.json'')]"
  by (simp add: DATA_FILES_def JSON_DIR_def path_join_def demo_env_def py_env_def)

lemma demo_load_data: "load_data demo_env demo_disk = demo_store"
  by code_simp

lemma demo_startup: "startup demo_env demo_disk = demo_state"
  by (simp add: startup_def demo_load_data demo_state_def)

lemma demo_loads_deadlines:
  \<open>loads demo_env ''{"midterm": "Oct 10"}'' = Inr (JDict [(''midterm'', JStr ''Oct 10'')])\<close>
  by code_simp

lemma demo_loads_unparseable:
  \<open>loads demo_env ''{"fee": '' = Inl ''Expecting value''\<close>
  by code_simp





lemma demo_section_deadlines:
  \<open>''\<newline>Academic Deadlines:\<newline>'' @ dumps demo_env 2 (JDict [(''midterm'', JStr ''Oct 10'')]) =
     ''\<newline>Academic Deadlines:\<newline>{\<newline>  "midterm": "Oct 10"\<newline>}''\<close>
  by code_simp

section \<open>Startup\<close>

text \<open>
  Claim C5. After startup every configured dataset name is bound in the store: the
  get-dataset operation returns, for a configured name with backing file \<open>path\<close>, the
  parsed content of the file when the file is there, readable and parses, and the empty
  object when it is absent, unreadable or does not parse. The names of the store are the
  configured names. \<open>load_data\<close> is total: every failure of the read is a value that the
  loop turns into the empty object.
\<close>

theorem startup_binds_every_dataset:
  assumes "(name, path) \<in> set (DATA_FILES E)"
  shows "get_data (data (startup E fs)) name =
           Inr (JDict [(''data'',
             case fs path of
               Some (Text txt) \<Rightarrow> (case loads E txt of Inr v \<Rightarrow> v | Inl msg \<Rightarrow> JDict [])
             | _ \<Rightarrow> JDict [])])
       \<and> keys (data (startup E fs)) = keys (DATA_FILES E)"
proof -
  have "map_of (load_data E fs) name =
          Some (case read_json E fs path of Inr v \<Rightarrow> v | Inl e \<Rightarrow> JDict [])"
    using assms by (rule map_of_load_data)
  then have "get_data (data (startup E fs)) name =
           Inr (JDict [(''data'',
             case fs path of
               Some (Text txt) \<Rightarrow> (case loads E txt of Inr v \<Rightarrow> v | Inl msg \<Rightarrow> JDict [])
             | _ \<Rightarrow> JDict [])])"
    by (simp add: get_data_def contains_def getitem_def startup_def read_json_def
        split: option.splits entry.splits sum.splits)
  moreover have "keys (data (startup E fs)) = keys (DATA_FILES E)"
    by (simp add: startup_def keys_load_data)
  ultimately show ?thesis by simp
qed

theorem startup_binds_every_dataset_witness:
  "(''academic_deadlines'', ''/app/data/json/academic_deadlines.json'') \<in> set (DATA_FILES demo_env)
   \<and> get_data (data (startup demo_env demo_disk)) ''academic_deadlines'' =
       Inr (JDict [(''data'', JDict [(''midterm'', JStr ''Oct 10'')])])
   \<and> get_data (data (startup demo_env demo_disk)) ''course_information'' =
       Inr (JDict [(''data'', JDict [])])
   \<and> get_data (data (startup demo_env demo_disk)) ''paper_recheck'' =
       Inr (JDict [(''data'', JDict [])])
   \<and> get_data (data (startup demo_env demo_disk)) ''student_service_support'' =
       Inr (JDict [(''data'', JDict [])])"
proof -
  have a: "(''academic_deadlines'', ''/app/data/json/academic_deadlines.json'') \<in> set (DATA_FILES demo_env)"
    and b: "(''course_information'', ''/app/data/json/course_information.json'') \<in> set (DATA_FILES demo_env)"
    and c: "(''paper_recheck'', ''/app/data/json/paper_recheck.json'') \<in> set (DATA_FILES demo_env)"
    and d: "(''student_service_support'', ''/app/data/json/student_support.json'') \<in> set (DATA_FILES demo_env)"
    by (simp_all add: demo_DATA_FILES)
  from startup_binds_every_dataset [OF a, of demo_disk]
       startup_binds_every_dataset [OF b, of demo_disk]
       startup_binds_every_dataset [OF c, of demo_disk]
       startup_binds_every_dataset [OF d, of demo_disk] a
  show ?thesis
    by (simp add: demo_disk_def demo_loads_deadlines demo_loads_unparseable)
qed

section \<open>The files endpoint and the names of the store\<close>

text \<open>
  Claim C7. After startup and any sequence of requests, the files endpoint returns the
  configured dataset names in configuration order, and the names bound in the store are
  still exactly the configured names, in the same order: no request adds or removes one.
\<close>

theorem files_and_store_names_fixed:
  "fst (handle E (run E (startup E fs) rs) AdminFiles) =
     Inr (JDict [(''files'', JList (map JStr (keys (DATA_FILES E))))])
   \<and> keys (DATA_FILES E) =
       [''academic_deadlines'', ''course_information'', ''student_service_support'',
        ''library_books_list'', ''transport_service'', ''paper_recheck'']
   \<and> keys (data (run E (startup E fs) rs)) = keys (DATA_FILES E)"
  by (simp add: get_available_files_def keys_DATA_FILES keys_reachable)

theorem files_and_store_names_fixed_witness:
  "fst (handle demo_env
         (run demo_env (startup demo_env demo_disk)
            [AdminUpdate (JDict [(''file_name'', JStr ''library_books_list''),
                                 (''new_data'', JDict [(''title'', JStr ''Emma'')])]) None,
             AdminUpdate (JDict [(''file_name'', JStr ''grades''), (''new_data'', JDict [])]) None,
             GetData ''grades''])
         AdminFiles) =
     Inr (JDict [(''files'', JList [JStr ''academic_deadlines'', JStr ''course_information'',
        JStr ''student_service_support'', JStr ''library_books_list'', JStr ''transport_service'',
        JStr ''paper_recheck''])])
   \<and> keys (data (run demo_env (startup demo_env demo_disk)
            [AdminUpdate (JDict [(''file_name'', JStr ''library_books_list''),
                                 (''new_data'', JDict [(''title'', JStr ''Emma'')])]) None,
             AdminUpdate (JDict [(''file_name'', JStr ''grades''), (''new_data'', JDict [])]) None,
             GetData ''grades''])) =
       [''academic_deadlines'', ''course_information'', ''student_service_support'',
        ''library_books_list'', ''transport_service'', ''paper_recheck'']"
  using files_and_store_names_fixed [of demo_env demo_disk
            "[AdminUpdate (JDict [(''file_name'', JStr ''library_books_list''),
                                 (''new_data'', JDict [(''title'', JStr ''Emma'')])]) None,
             AdminUpdate (JDict [(''file_name'', JStr ''grades''), (''new_data'', JDict [])]) None,
             GetData ''grades'']"]
  by simp

section \<open>The get-dataset endpoint\<close>

text \<open>
  Claim C9. For a name that is not configured, the get-dataset endpoint raises the 404
  exception "File not found" in every state reached from startup, so it returns no value
  at all; and the endpoint, whatever it answers, leaves the state as it was.
\<close>

theorem get_unknown_name_not_found:
  assumes "fname \<notin> set (keys (DATA_FILES E))"
  shows "handle E (run E (startup E fs) rs) (GetData fname) =
           (Inl (HTTPException 404 ''File not found''), run E (startup E fs) rs)
       \<and> status_code (fst (handle E (run E (startup E fs) rs) (GetData fname))) = 404
       \<and> snd (handle E st (GetData name)) = st"
  using assms by (simp add: get_data_def contains_iff keys_reachable)

theorem get_unknown_name_not_found_witness:
  "''nonexistent_dataset'' \<notin> set (keys (DATA_FILES demo_env))
   \<and> handle demo_env (startup demo_env demo_disk) (GetData ''nonexistent_dataset'') =
       (Inl (HTTPException 404 ''File not found''), startup demo_env demo_disk)
   \<and> status_code (fst (handle demo_env (startup demo_env demo_disk) (GetData ''nonexistent_dataset''))) = 404
   \<and> handle demo_env (startup demo_env demo_disk) (GetData ''library_books_list'') =
       (Inr (JDict [(''data'', JList [JStr ''Dune''])]), startup demo_env demo_disk)"
proof -
  have unknown: "''nonexistent_dataset'' \<notin> set (keys (DATA_FILES demo_env))"
    by (simp add: keys_DATA_FILES)
  have known: "handle demo_env (startup demo_env demo_disk) (GetData ''library_books_list'') =
       (Inr (JDict [(''data'', JList [JStr ''Dune''])]), startup demo_env demo_disk)"
    by (simp add: demo_startup demo_state_def demo_store_def get_data_def contains_def getitem_def)
  from get_unknown_name_not_found [OF unknown, of demo_disk "[]"] unknown known
  show ?thesis by simp
qed

section \<open>The update endpoint\<close>

text \<open>
  Claim C1. An update request for a name that is not configured should be answered with
  404. Evaluated on the instance: the handler raises the 404 exception inside its own
  \<^verbatim>\<open>try\<close>, the enclosing \<^verbatim>\<open>except Exception\<close> catches it and raises a 500 whose detail
  quotes the 404, so the caller sees status 500; the state is unchanged. The get-dataset
  endpoint, which raises outside any \<^verbatim>\<open>try\<close>, answers 404 for the same name.
\<close>

theorem update_unknown_name_answers_500:
  "update_data demo_env None (startup demo_env demo_disk)
      \<lparr>file_name = ''nonexistent_dataset'', new_data = [(''k'', JInt 1)]\<rparr> =
     (Inl (HTTPException 500 ''Error updating data: 404: File not found''), startup demo_env demo_disk)
   \<and> status_code (fst (update_data demo_env None (startup demo_env demo_disk)
        \<lparr>file_name = ''nonexistent_dataset'', new_data = [(''k'', JInt 1)]\<rparr>)) = 500
   \<and> get_data (data (startup demo_env demo_disk)) ''nonexistent_dataset'' =
       Inl (HTTPException 404 ''File not found'')"
proof -
  have "\<not> contains (data (startup demo_env demo_disk))
      (file_name \<lparr>file_name = ''nonexistent_dataset'', new_data = [(''k'', JInt 1)]\<rparr>)"
    by (simp add: contains_def demo_startup demo_state_def demo_store_def)
  then show ?thesis
    by (simp add: update_data_unknown_name get_data_def)
qed




text \<open>
  Claim C3. For a dataset whose current value is a mapping \<open>d\<close>, after the update the
  dataset is \<open>d\<close> merged with the patch: every key of the patch maps to the patch's value
  (the keys of a Python dictionary are distinct), and every key that the patch does not
  have maps to what it mapped to before. This holds whether or not the write to the file
  succeeds. On the instance, \<^verbatim>\<open>{"midterm": "Oct 10"}\<close> updated with \<^verbatim>\<open>{"final": "Dec 15"}\<close>
  is \<^verbatim>\<open>{"midterm": "Oct 10", "final": "Dec 15"}\<close>.
\<close>

theorem mapping_dataset_update_merges:
  assumes "map_of (data st) (file_name request) = Some (JDict d)"
      and "distinct (keys (new_data request))"
  shows "map_of (data (snd (update_data E fault st request))) (file_name request) =
           Some (JDict (dict_update d (new_data request)))
       \<and> (\<forall>(k, v) \<in> set (new_data request). map_of (dict_update d (new_data request)) k = Some v)
       \<and> (\<forall>k. k \<notin> set (keys (new_data request)) \<longrightarrow>
              map_of (dict_update d (new_data request)) k = map_of d k)"
proof (intro conjI)
  show "map_of (data (snd (update_data E fault st request))) (file_name request) =
           Some (JDict (dict_update d (new_data request)))"
    using assms(1) by (simp add: data_update_data contains_def map_of_update_in_memory)
  show "\<forall>(k, v) \<in> set (new_data request). map_of (dict_update d (new_data request)) k = Some v"
    using assms(2) by (auto intro: dict_update_patch_key)
  show "\<forall>k. k \<notin> set (keys (new_data request)) \<longrightarrow>
              map_of (dict_update d (new_data request)) k = map_of d k"
    by (simp add: dict_update_other_key)
qed

theorem mapping_dataset_update_merges_witness:
  "map_of (data demo_state) ''academic_deadlines'' = Some (JDict [(''midterm'', JStr ''Oct 10'')])
   \<and> distinct (keys [(''final'', JStr ''Dec 15'')])
   \<and> map_of (data (snd (update_data demo_env None demo_state
          \<lparr>file_name = ''academic_deadlines'', new_data = [(''final'', JStr ''Dec 15'')]\<rparr>)))
        ''academic_deadlines'' =
       Some (JDict [(''midterm'', JStr ''Oct 10''), (''final'', JStr ''Dec 15'')])"
proof -
  have cur: "map_of (data demo_state)
      (file_name \<lparr>file_name = ''academic_deadlines'', new_data = [(''final'', JStr ''Dec 15'')]\<rparr>) =
      Some (JDict [(''midterm'', JStr ''Oct 10'')])"
    by (simp add: demo_state_def demo_store_def)
  have dist: "distinct (keys (new_data \<lparr>file_name = ''academic_deadlines'', new_data = [(''final'', JStr ''Dec 15'')]\<rparr>))"
    by (simp add: keys_def)
  from mapping_dataset_update_merges [OF cur dist, of demo_env None] cur dist
  show ?thesis by simp
qed

text \<open>
  Claim C4. For a configured dataset, when the write to the backing file fails (at
  \<^verbatim>\<open>open\<close> or in the middle of the write), the caller gets the 500 error
  "Error updating data: ..." with the message of the I/O error, and the store holds the
  merged value all the same: the value it holds after a successful write.
\<close>

theorem write_failure_keeps_merged_value:
  assumes "contains (data st) (file_name request)"
      and "contains (DATA_FILES E) (file_name request)"
  shows "fst (update_data E (Some f) st request) =
           Inl (HTTPException 500 (''Error updating data: '' @ fault_message f))
       \<and> status_code (fst (update_data E (Some f) st request)) = 500
       \<and> data (snd (update_data E (Some f) st request)) =
           update_in_memory (data st) (file_name request) (new_data request)
       \<and> data (snd (update_data E (Some f) st request)) = data (snd (update_data E None st request))"
proof -
  from assms(1) obtain cur where cur: "map_of (data st) (file_name request) = Some cur"
    by (auto simp: contains_def)
  from assms(2) obtain p where p: "map_of (DATA_FILES E) (file_name request) = Some p"
    by (auto simp: contains_def)
  from cur obtain v where
    v: "map_of (update_in_memory (data st) (file_name request) (new_data request)) (file_name request) = Some v"
    by (simp add: map_of_update_in_memory)
  have "fst (update_data E (Some f) st request) =
           Inl (HTTPException 500 (''Error updating data: '' @ fault_message f))"
    by (simp add: update_data_def update_data_try_fault [OF cur p v])
  then show ?thesis using assms(1) by (simp add: data_update_data)
qed

theorem write_failure_keeps_merged_value_witness:
  "contains (data demo_state) ''academic_deadlines''
   \<and> contains (DATA_FILES demo_env) ''academic_deadlines''
   \<and> fst (update_data demo_env (Some (OpenFails ''[Errno 28] No space left on device'')) demo_state
          \<lparr>file_name = ''academic_deadlines'', new_data = [(''final'', JStr ''Dec 15'')]\<rparr>) =
       Inl (HTTPException 500 ''Error updating data: [Errno 28] No space left on device'')
   \<and> map_of (data (snd (update_data demo_env (Some (OpenFails ''[Errno 28] No space left on device''))
          demo_state \<lparr>file_name = ''academic_deadlines'', new_data = [(''final'', JStr ''Dec 15'')]\<rparr>)))
        ''academic_deadlines'' =
       Some (JDict [(''midterm'', JStr ''Oct 10''), (''final'', JStr ''Dec 15'')])"
proof -
  have c1: "contains (data demo_state)
      (file_name \<lparr>file_name = ''academic_deadlines'', new_data = [(''final'', JStr ''Dec 15'')]\<rparr>)"
    by (simp add: contains_def demo_state_def demo_store_def)
  have c2: "contains (DATA_FILES demo_env)
      (file_name \<lparr>file_name = ''academic_deadlines'', new_data = [(''final'', JStr ''Dec 15'')]\<rparr>)"
    by (simp add: contains_def demo_DATA_FILES)
  from write_failure_keeps_merged_value [OF c1 c2, of "OpenFails ''[Errno 28] No space left on device''"]
    c1 c2
  show ?thesis
    by (simp add: update_in_memory_def demo_state_def demo_store_def)
qed



text \<open>
  Claim C10. For a configured dataset whose current value is neither a mapping nor a
  sequence, an update whose write succeeds leaves the store exactly as it was, rewrites
  the backing file with the serialisation of the unchanged value, and answers success
  with that value as \<open>updated_data\<close>.
\<close>

theorem scalar_dataset_update_rewrites_file:
  assumes "map_of (data st) (file_name request) = Some v"
      and "\<not> isinstance_dict v" and "\<not> isinstance_list v"
      and "map_of (DATA_FILES E) (file_name request) = Some file_path"
  shows "update_data E None st request =
           (Inr (JDict [(''status'', JStr ''success''),
                        (''message'', JStr (''Data updated successfully in '' @ file_name request)),
                        (''updated_data'', v)]),
            \<lparr>data = data st, disk = (disk st)(file_path \<mapsto> Text (dumps E 4 v))\<rparr>)"
proof -
  have same: "update_in_memory (data st) (file_name request) (new_data request) = data st"
    using assms(1-3) by (cases v) (simp_all add: update_in_memory_def)
  have "update_data_try E None st request =
           (Inr (JDict [(''status'', JStr ''success''),
                        (''message'', JStr (''Data updated successfully in '' @ file_name request)),
                        (''updated_data'', v)]),
            \<lparr>data = data st, disk = (disk st)(file_path \<mapsto> Text (dumps E 4 v))\<rparr>)"
    using update_data_try_written [OF assms(1) assms(4), of v] assms(1) by (simp add: same)
  then show ?thesis by (simp add: update_data_def)
qed

theorem scalar_dataset_update_rewrites_file_witness:
  "map_of (data demo_state) ''transport_service'' = Some (JInt 42)
   \<and> \<not> isinstance_dict (JInt 42) \<and> \<not> isinstance_list (JInt 42)
   \<and> map_of (DATA_FILES demo_env) ''transport_service'' = Some ''/app/data/json/transport_service.json''
   \<and> update_data demo_env None demo_state
         \<lparr>file_name = ''transport_service'', new_data = [(''route'', JStr ''A'')]\<rparr> =
       (Inr (JDict [(''status'', JStr ''success''),
                    (''message'', JStr ''Data updated successfully in transport_service''),
                    (''updated_data'', JInt 42)]),
        \<lparr>data = data demo_state,
           disk = (disk demo_state)(''/app/data/json/transport_service.json'' \<mapsto> Text ''42'')\<rparr>)"
proof -
  have cur: "map_of (data demo_state)
      (file_name \<lparr>file_name = ''transport_service'', new_data = [(''route'', JStr ''A'')]\<rparr>) = Some (JInt 42)"
    by (simp add: demo_state_def demo_store_def)
  have path: "map_of (DATA_FILES demo_env)
      (file_name \<lparr>file_name = ''transport_service'', new_data = [(''route'', JStr ''A'')]\<rparr>) =
      Some ''/app/data/json/transport_service.json''"
    by (simp add: demo_DATA_FILES)
  have txt42: "dumps demo_env 4 (JInt 42) = ''42''"
    by code_simp
  from scalar_dataset_update_rewrites_file [OF cur _ _ path] cur path txt42
  show ?thesis by simp
qed

section \<open>The context message\<close>

text \<open>
  Claim C8. In every state reached from startup by any sequence of requests,
  \<open>create_context_message\<close> returns a text (it raises nothing). For each of the six
  sections, which are the configured datasets, the text contains the section's header
  line followed by the serialisation of the dataset with indent 2, and the text ends with
  the fixed block of rules.
\<close>

theorem context_message_never_fails:
  "\<exists>txt. create_context_message E (data (run E (startup E fs) rs)) = Inr txt
     \<and> (\<forall>(title, key) \<in> set section_titles.
           \<exists>v. map_of (data (run E (startup E fs) rs)) key = Some v
              \<and> sublist (''\<newline>'' @ title @ '':\<newline>'' @ dumps E 2 v) txt)
     \<and> suffix context_rules txt
     \<and> map snd section_titles = keys (DATA_FILES E)"
proof -
  let ?store = "data (run E (startup E fs) rs)"
  let ?secs = "map (\<lambda>(title, key). (title, the (map_of ?store key))) section_titles"
  let ?parts = "[context_intro] @ map (render_section E) ?secs @ [context_rules]"
  have bound: "\<forall>key \<in> set (map snd section_titles). map_of ?store key \<noteq> None"
  proof
    fix key assume "key \<in> set (map snd section_titles)"
    then have "key \<in> set (keys ?store)"
      by (simp only: keys_section_titles [of E] keys_reachable)
    then show "map_of ?store key \<noteq> None"
      by (simp add: keys_def map_of_eq_None_iff)
  qed
  then have secs: "data_sections ?store section_titles = Inr ?secs"
    by (rule data_sections_total)
  then have msg: "create_context_message E ?store = Inr (str_join ''\<newline>'' ?parts)"
    by (simp add: create_context_message_def)
  have each: "\<exists>v. map_of ?store key = Some v
              \<and> sublist (''\<newline>'' @ title @ '':\<newline>'' @ dumps E 2 v) (str_join ''\<newline>'' ?parts)"
    if "(title, key) \<in> set section_titles" for title key
  proof -
    from that bound obtain v where v: "map_of ?store key = Some v" by force
    have "render_section E (title, v) \<in> set ?parts"
      using that v by (force simp: image_iff)
    then have "sublist (render_section E (title, v)) (str_join ''\<newline>'' ?parts)"
      by (rule sublist_str_join)
    with v show ?thesis by (simp add: render_section_def)
  qed
  have "suffix (last ?parts) (str_join ''\<newline>'' ?parts)"
    by (rule suffix_str_join) simp
  then have "suffix context_rules (str_join ''\<newline>'' ?parts)" by simp
  with msg each keys_section_titles [of E] show ?thesis by blast
qed

theorem context_message_never_fails_witness:
  \<open>\<exists>txt. create_context_message demo_env (data (startup demo_env demo_disk)) = Inr txt
      \<and> sublist ''\<newline>Academic Deadlines:\<newline>{\<newline>  "midterm": "Oct 10"\<newline>}'' txt
      \<and> suffix ''4. Be direct and precise'' txt\<close>
proof -
  from context_message_never_fails [of demo_env demo_disk "[]"]
  obtain m where msg: "create_context_message demo_env (data (startup demo_env demo_disk)) = Inr m"
    and secs: "\<forall>(title, key) \<in> set section_titles.
           \<exists>v. map_of (data (startup demo_env demo_disk)) key = Some v
              \<and> sublist (''\<newline>'' @ title @ '':\<newline>'' @ dumps demo_env 2 v) m"
    and rules: "suffix context_rules m"
    by auto
  have "(''Academic Deadlines'', ''academic_deadlines'') \<in> set section_titles"
    by (simp add: section_titles_def)
  with secs obtain v where v: "map_of (data (startup demo_env demo_disk)) ''academic_deadlines'' = Some v"
    and sub: "sublist (''\<newline>'' @ ''Academic Deadlines'' @ '':\<newline>'' @ dumps demo_env 2 v) m"
    by blast
  from v have "v = JDict [(''midterm'', JStr ''Oct 10'')]"
    by (simp add: demo_startup demo_state_def demo_store_def)
  with sub have "sublist (''\<newline>Academic Deadlines:\<newline>'' @ dumps demo_env 2 (JDict [(''midterm'', JStr ''Oct 10'')])) m"
    by simp
  then have one: \<open>sublist ''\<newline>Academic Deadlines:\<newline>{\<newline>  "midterm": "Oct 10"\<newline>}'' m\<close>
    by (simp only: demo_section_deadlines)
  have "suffix ''4. Be direct and precise'' context_rules"
    by (simp add: context_rules_def suffix_def)
  with rules have "suffix ''4. Be direct and precise'' m"
    by (rule suffix_order.trans [rotated])
  with msg one show ?thesis by blast
qed

end
